theory Spec2Isabelle
  imports Main "HOL-Library.Word"
begin

section \<open>Data model\<close>

text \<open>
  JavaScript strings are sequences of UTF-16 code units; \<open>trim\<close> and the truthiness
  test (\<open>!s\<close> holds exactly for the empty string) work on code units, so a string is a
  list of 16-bit words. \<open>lit\<close> writes an ASCII literal of the source as such a list.
\<close>

type_synonym jsstring = "16 word list"

definition lit :: "string \<Rightarrow> jsstring" where
  "lit s = map (\<lambda>c. word_of_nat (of_char c)) s"

text \<open>The interfaces \<open>EchoItem\<close> and \<open>EchoData\<close> of the type declarations.\<close>

record EchoItem =
  type :: jsstring
  title :: jsstring
  creator :: jsstring
  year :: jsstring
  content :: jsstring

record EchoData =
  thematic_key :: jsstring
  color_hex :: jsstring
  echoes :: "EchoItem list"
  community_insight :: jsstring
  search_query :: jsstring

text \<open>\<open>type ViewState = 'input' | 'echo' | 'synthesizing' | 'artifact'\<close>\<close>

datatype ViewState = V_input | V_echo | V_synthesizing | V_artifact

text \<open>
  The component's \<open>useState\<close> cells, in the order of their declaration. \<open>null\<close> is
  \<open>None\<close>.
\<close>

record state =
  input :: jsstring
  loading :: bool
  data :: "EchoData option"
  error :: jsstring
  view :: ViewState
  synthesisImage :: "jsstring option"
  placeholderIndex :: nat

definition initial :: state where
  "initial = \<lparr>input = [], loading = False, data = None, error = [], view = V_input,
     synthesisImage = None, placeholderIndex = 0\<rparr>"

section \<open>Retrieval: \<open>findEcho\<close>\<close>

text \<open>
  The code units \<open>String.prototype.trim\<close> strips: ECMAScript's WhiteSpace (TAB, VT, FF,
  ZWNBSP and the space separators) and LineTerminator (LF, CR, LS, PS).
\<close>

definition isWhiteSpace :: "16 word \<Rightarrow> bool" where
  "isWhiteSpace c \<longleftrightarrow>
     c = 0x0009 \<or> c = 0x000A \<or> c = 0x000B \<or> c = 0x000C \<or> c = 0x000D \<or> c = 0x0020 \<or>
     c = 0x00A0 \<or> c = 0x1680 \<or> (0x2000 \<le> c \<and> c \<le> 0x200A) \<or> c = 0x2028 \<or>
     c = 0x2029 \<or> c = 0x202F \<or> c = 0x205F \<or> c = 0x3000 \<or> c = 0xFEFF"

definition trim :: "jsstring \<Rightarrow> jsstring" where
  "trim s = rev (dropWhile isWhiteSpace (rev (dropWhile isWhiteSpace s)))"

text \<open>
  The outcome of an awaited promise: the value it is fulfilled with, or rejection (the
  handlers never look at the reason).
\<close>

datatype 'a outcome = Fulfilled 'a | Rejected

text \<open>\<open>const searchTerm = overrideInput || input\<close>: an absent or empty override is falsy.\<close>

definition searchTerm :: "jsstring option \<Rightarrow> state \<Rightarrow> jsstring" where
  "searchTerm overrideInput s =
     (case overrideInput of
        None \<Rightarrow> input s
      | Some t \<Rightarrow> if t \<noteq> [] then t else input s)"

text \<open>
  \<open>findEcho\<close> up to its \<open>await\<close>: the guard, then the three synchronous updates. The
  second component is the request handed to \<open>findEchoesForFeeling\<close>, \<open>None\<close> when the
  function has returned without issuing one.
\<close>

definition findEcho_begin :: "jsstring option \<Rightarrow> state \<Rightarrow> state \<times> jsstring option" where
  "findEcho_begin overrideInput s =
     (let t = searchTerm overrideInput s in
      if t = [] \<or> trim t = [] then (s, None)
      else (s\<lparr>loading := True, error := [], synthesisImage := None\<rparr>, Some t))"

text \<open>The \<open>try\<close> branch followed by \<open>finally\<close>, run when the promise is fulfilled.\<close>

definition findEcho_fulfilled :: "EchoData \<Rightarrow> state \<Rightarrow> state" where
  "findEcho_fulfilled resultData s = s\<lparr>data := Some resultData, view := V_echo, loading := False\<rparr>"

text \<open>The \<open>catch\<close> branch followed by \<open>finally\<close>, run when the promise is rejected.\<close>

definition findEcho_rejected :: "state \<Rightarrow> state" where
  "findEcho_rejected s =
     s\<lparr>error := lit ''The archive is silent. Please try again.'', loading := False\<rparr>"

text \<open>
  One whole call of \<open>findEcho\<close> with nothing else happening between its request and the
  answer; \<open>service\<close> is what \<open>findEchoesForFeeling\<close> answers to a search term.
\<close>

definition findEcho :: "(jsstring \<Rightarrow> EchoData outcome) \<Rightarrow> jsstring option \<Rightarrow> state \<Rightarrow> state" where
  "findEcho service overrideInput s =
     (case findEcho_begin overrideInput s of
        (s', None) \<Rightarrow> s'
      | (s', Some t) \<Rightarrow>
          (case service t of
             Fulfilled resultData \<Rightarrow> findEcho_fulfilled resultData s'
           | Rejected \<Rightarrow> findEcho_rejected s'))"

section \<open>Synthesis: \<open>generateArtifact\<close>\<close>

text \<open>
  \<open>generateArtifact\<close> up to its \<open>await\<close>: without a result it returns at once;
  otherwise it shows the synthesizing view and calls \<open>generateEchoArtifact\<close> with a
  prompt derived from the result it closed over (the second component).
\<close>

definition generateArtifact_begin :: "state \<Rightarrow> state \<times> EchoData option" where
  "generateArtifact_begin s =
     (case data s of
        None \<Rightarrow> (s, None)
      | Some d \<Rightarrow> (s\<lparr>view := V_synthesizing\<rparr>, Some d))"

text \<open>\<open>img.onload\<close>, for the image whose source is \<open>imageUrl\<close>.\<close>

definition artifact_onload :: "jsstring \<Rightarrow> state \<Rightarrow> state" where
  "artifact_onload imageUrl s = s\<lparr>synthesisImage := Some imageUrl, view := V_artifact\<rparr>"

text \<open>\<open>img.onerror\<close>.\<close>

definition artifact_onerror :: "state \<Rightarrow> state" where
  "artifact_onerror s = s\<lparr>error := lit ''Unable to render artifact.'', view := V_echo\<rparr>"

text \<open>The \<open>catch\<close> branch, run when \<open>generateEchoArtifact\<close> rejects.\<close>

definition artifact_catch :: "state \<Rightarrow> state" where
  "artifact_catch s =
     s\<lparr>error := lit ''Unable to synthesize artifact visual. Try again.'', view := V_echo\<rparr>"

section \<open>Reset and back\<close>

text \<open>The four state updates of \<open>handleReset\<close>; its \<open>removeItem\<close> is in \<open>fire\<close> below.\<close>

definition handleReset :: "state \<Rightarrow> state" where
  "handleReset s = s\<lparr>data := None, input := [], view := V_input, synthesisImage := None\<rparr>"

definition handleBack :: "state \<Rightarrow> state" where
  "handleBack s =
     (if view s = V_artifact then s\<lparr>view := V_echo\<rparr>
      else if view s = V_echo then s\<lparr>view := V_input\<rparr>
      else s)"

section \<open>What is on screen\<close>

text \<open>
  The four conditional blocks of the returned JSX. They are mutually exclusive in
  \<open>view\<close>; when none applies only the header is drawn.
\<close>

datatype screen = InputScreen | ResultScreen | SynthesizingScreen | ArtifactScreen | Blank

definition truthy :: "jsstring option \<Rightarrow> bool" where
  "truthy x = (case x of None \<Rightarrow> False | Some u \<Rightarrow> u \<noteq> [])"

definition rendered :: "state \<Rightarrow> screen" where
  "rendered s =
     (if view s = V_input then InputScreen
      else if view s = V_echo \<and> data s \<noteq> None then ResultScreen
      else if view s = V_synthesizing then SynthesizingScreen
      else if view s = V_artifact \<and> truthy (synthesisImage s) \<and> data s \<noteq> None
        then ArtifactScreen
      else Blank)"

text \<open>\<open>{error && <div ...>{error}</div>}\<close> in the input view: the text shown, if any.\<close>

definition shown_error :: "state \<Rightarrow> jsstring option" where
  "shown_error s = (if view s = V_input \<and> error s \<noteq> [] then Some (error s) else None)"

section \<open>Session persistence\<close>

text \<open>
  The object written under \<open>echoes_active_session\<close>. A key that is missing or holds a
  falsy value is \<open>None\<close>. What \<open>JSON.parse\<close> makes of the slot's text is either such
  an object or, for any other text, a failure inside the \<open>try\<close> block (\<open>Malformed\<close>).
  \<open>JSON.stringify\<close> followed by \<open>JSON.parse\<close> is taken to give the object back.
\<close>

record session =
  s_data :: "EchoData option"
  s_input :: "jsstring option"
  s_view :: "ViewState option"
  s_synthesisImage :: "jsstring option"

datatype stored = Malformed | Parsed session

text \<open>The body of the restoring effect, run once after the first render.\<close>

definition restoreSession :: "stored option \<Rightarrow> state \<Rightarrow> state" where
  "restoreSession savedSession s =
     (case savedSession of
        None \<Rightarrow> s
      | Some Malformed \<Rightarrow> s
      | Some (Parsed parsed) \<Rightarrow>
          (case s_data parsed of
             None \<Rightarrow> s
           | Some d \<Rightarrow>
               s\<lparr>data := Some d,
                 input := (case s_input parsed of None \<Rightarrow> [] | Some t \<Rightarrow> t),
                 view := (case s_view parsed of None \<Rightarrow> V_echo | Some v \<Rightarrow> v),
                 synthesisImage :=
                   (if s_view parsed = Some V_artifact \<and> truthy (s_synthesisImage parsed)
                    then s_synthesisImage parsed else synthesisImage s)\<rparr>))"

text \<open>The object the saving effect serialises.\<close>

definition snapshot :: "state \<Rightarrow> session" where
  "snapshot s = \<lparr>s_data = data s, s_input = Some (input s), s_view = Some (view s),
     s_synthesisImage = synthesisImage s\<rparr>"

text \<open>The body of the saving effect.\<close>

definition saveSession :: "state \<Rightarrow> stored option \<Rightarrow> stored option" where
  "saveSession s slot = (if data s \<noteq> None then Some (Parsed (snapshot s)) else slot)"

text \<open>
  The effect's dependency array \<open>[data, input, view, synthesisImage]\<close>. The effect of
  a render is due when a dependency differs from the previous render's. Strings, views
  and \<open>null\<close> are compared by content; \<open>data\<close> is an object, compared by identity, so
  an update that stores a newly parsed result (\<open>fresh\<close>) always makes the effect due.
\<close>

definition deps :: "state \<Rightarrow> EchoData option \<times> jsstring \<times> ViewState \<times> jsstring option" where
  "deps s = (data s, input s, view s, synthesisImage s)"

definition effect_due :: "bool \<Rightarrow> state \<Rightarrow> state \<Rightarrow> bool" where
  "effect_due fresh prev cur \<longleftrightarrow> fresh \<or> deps cur \<noteq> deps prev"

section \<open>The running component\<close>

text \<open>
  The component with its surroundings: the state of the last committed render, the
  storage slot, the promises and image loads still in flight, and the saving effect of
  the last commit when it has not run yet, with the state it closed over. The saving
  effect is a passive effect: after a commit caused by a click or a key it runs at
  once, after any other commit (an answer arriving, the timer, the restoring effect)
  it runs later, and at the latest before the next render starts.
\<close>

datatype pending = Retrieval jsstring | Service EchoData | ImageLoad jsstring

record system =
  ui :: state
  slot :: "stored option"
  inflight :: "pending list"
  pending_save :: "state option"

text \<open>The pending saving effect runs.\<close>

definition flush :: "system \<Rightarrow> system" where
  "flush sys =
     (case pending_save sys of
        None \<Rightarrow> sys
      | Some closed_over \<Rightarrow>
          sys\<lparr>slot := saveSession closed_over (slot sys), pending_save := None\<rparr>)"

text \<open>
  Startup: the first render shows \<open>initial\<close>; its effects run (the restoring effect
  reads the slot, the saving effect finds no data); the restoring effect's updates
  are committed by a second render, whose saving effect is left pending. No event is
  taken before that second render.
\<close>

definition mount :: "stored option \<Rightarrow> system" where
  "mount savedSession =
     (let s = restoreSession savedSession initial
      in \<lparr>ui = s, slot = savedSession, inflight = [],
          pending_save = (if effect_due False initial s then Some s else None)\<rparr>)"

text \<open>
  A batch of state updates \<open>f\<close>. When nothing changes there is no render. Otherwise
  the effect still pending from the previous commit runs first, the new state is
  committed, and when the saving effect is due it runs at once (\<open>discrete\<close>: the batch
  comes from a click or a key) or is left pending.
\<close>

definition render :: "bool \<Rightarrow> bool \<Rightarrow> (state \<Rightarrow> state) \<Rightarrow> system \<Rightarrow> system" where
  "render discrete fresh f sys =
     (if \<not> fresh \<and> f (ui sys) = ui sys then sys
      else if \<not> effect_due fresh (ui sys) (f (ui sys))
        then (flush sys)\<lparr>ui := f (ui sys)\<rparr>
      else if discrete
        then (flush sys)\<lparr>ui := f (ui sys),
               slot := saveSession (f (ui sys)) (slot (flush sys))\<rparr>
      else (flush sys)\<lparr>ui := f (ui sys), pending_save := Some (f (ui sys))\<rparr>)"

text \<open>The updates of a click or key handler.\<close>

definition update :: "(state \<Rightarrow> state) \<Rightarrow> system \<Rightarrow> system" where
  "update f sys = render True False f sys"

text \<open>A call \<open>findEcho()\<close> from an event handler, up to its \<open>await\<close>.\<close>

definition call_findEcho :: "system \<Rightarrow> system" where
  "call_findEcho sys =
     (case findEcho_begin None (ui sys) of
        (s', None) \<Rightarrow> update (\<lambda>_. s') sys
      | (s', Some t) \<Rightarrow> (update (\<lambda>_. s') sys)\<lparr>inflight := inflight sys @ [Retrieval t]\<rparr>)"

definition call_generateArtifact :: "system \<Rightarrow> system" where
  "call_generateArtifact sys =
     (case generateArtifact_begin (ui sys) of
        (s', None) \<Rightarrow> update (\<lambda>_. s') sys
      | (s', Some d) \<Rightarrow> (update (\<lambda>_. s') sys)\<lparr>inflight := inflight sys @ [Service d]\<rparr>)"

text \<open>
  An answer arrives: its handler runs on the state of that moment, outside any click
  or key handler.
\<close>

definition arrive :: "pending \<Rightarrow> bool \<Rightarrow> (state \<Rightarrow> state) \<Rightarrow> system \<Rightarrow> system option" where
  "arrive p fresh f sys =
     (if p \<in> set (inflight sys)
      then Some ((render False fresh f sys)\<lparr>inflight := remove1 p (inflight sys)\<rparr>)
      else None)"

text \<open>
  What can happen to the component. User events are enabled where the element that
  carries the handler is rendered and not disabled: the text field, Enter key and
  placeholder timer on the input screen; Reshuffle and Sit-with-this on the result
  screen; the back arrow outside the input view; the logo (reset) everywhere.
  \<open>handleDrift\<close> is a \<open>Change\<close> to one of its constant texts. A fulfilled
  \<open>generateEchoArtifact\<close> starts the load of the image at the URL it returned.
  \<open>handleReset\<close> removes the stored item inside the click handler, before the render
  its updates cause. \<open>RunEffects\<close> is the moment a pending saving effect runs.
\<close>

datatype event =
    Change jsstring
  | Submit
  | Reshuffle
  | Synthesize
  | Reset
  | Back
  | Tick
  | RetrievalFulfilled jsstring EchoData
  | RetrievalRejected jsstring
  | ServiceFulfilled EchoData jsstring
  | ServiceRejected EchoData
  | ImageLoaded jsstring
  | ImageFailed jsstring
  | RunEffects
  | Reload

fun fire :: "event \<Rightarrow> system \<Rightarrow> system option" where
  "fire (Change t) sys =
     (if rendered (ui sys) = InputScreen then Some (update (\<lambda>s. s\<lparr>input := t\<rparr>) sys) else None)"
| "fire Submit sys =
     (if rendered (ui sys) = InputScreen then Some (call_findEcho sys) else None)"
| "fire Reshuffle sys =
     (if rendered (ui sys) = ResultScreen \<and> \<not> loading (ui sys)
      then Some (call_findEcho sys) else None)"
| "fire Synthesize sys =
     (if rendered (ui sys) = ResultScreen then Some (call_generateArtifact sys) else None)"
| "fire Reset sys = Some (update handleReset (sys\<lparr>slot := None\<rparr>))"
| "fire Back sys =
     (if view (ui sys) \<noteq> V_input then Some (update handleBack sys) else None)"
| "fire Tick sys =
     (if view (ui sys) = V_input
      then Some (render False False
                  (\<lambda>s. s\<lparr>placeholderIndex := (placeholderIndex s + 1) mod 14\<rparr>) sys)
      else None)"
| "fire (RetrievalFulfilled t resultData) sys =
     arrive (Retrieval t) True (findEcho_fulfilled resultData) sys"
| "fire (RetrievalRejected t) sys = arrive (Retrieval t) False findEcho_rejected sys"
| "fire (ServiceFulfilled d imageUrl) sys =
     (if Service d \<in> set (inflight sys)
      then Some (sys\<lparr>inflight := remove1 (Service d) (inflight sys) @ [ImageLoad imageUrl]\<rparr>)
      else None)"
| "fire (ServiceRejected d) sys = arrive (Service d) False artifact_catch sys"
| "fire (ImageLoaded imageUrl) sys =
     arrive (ImageLoad imageUrl) False (artifact_onload imageUrl) sys"
| "fire (ImageFailed imageUrl) sys = arrive (ImageLoad imageUrl) False artifact_onerror sys"
| "fire RunEffects sys = Some (flush sys)"
| "fire Reload sys = Some (mount (slot sys))"

text \<open>A sequence of events, each enabled when its turn comes.\<close>

fun run :: "event list \<Rightarrow> system \<Rightarrow> system option" where
  "run [] sys = Some sys"
| "run (e # es) sys = (case fire e sys of None \<Rightarrow> None | Some sys' \<Rightarrow> run es sys')"

text \<open>The states a sequence of events passes through, one per event.\<close>

fun trace :: "event list \<Rightarrow> system \<Rightarrow> system list option" where
  "trace [] sys = Some []"
| "trace (e # es) sys =
     (case fire e sys of
        None \<Rightarrow> None
      | Some sys' \<Rightarrow> (case trace es sys' of None \<Rightarrow> None | Some ss \<Rightarrow> Some (sys' # ss)))"

definition views :: "event list \<Rightarrow> system \<Rightarrow> ViewState list option" where
  "views es sys = map_option (map (\<lambda>sys'. view (ui sys'))) (trace es sys)"

section \<open>Card compositor: \<open>handleDownloadCard\<close>\<close>

text \<open>
  What the handler does to the canvas and its 2D context, in program order, and the
  file it finally offers for download (\<open>href\<close>, \<open>download\<close>).
\<close>

datatype canvas_op =
    CreateCanvas
  | SetWidth nat
  | SetHeight nat
  | FillStyle jsstring
  | FillRect nat nat nat nat
  | DrawImage nat nat nat nat
  | TextAlign jsstring
  | Font jsstring
  | FillText jsstring nat nat

datatype download = Download jsstring jsstring

text \<open>
  What the browser contributes: whether \<open>getContext('2d')\<close> gives a context, whether
  the image loads, what \<open>toDataURL\<close> returns (\<open>None\<close> when it throws, as it does for a
  canvas tainted by a cross-origin image), the case mappings and the date text.
\<close>

record browser =
  has_context :: bool
  image_loads :: bool
  toDataURL :: "jsstring option"
  toUpperCase :: "jsstring \<Rightarrow> jsstring"
  toLowerCase :: "jsstring \<Rightarrow> jsstring"
  toLocaleDateString :: jsstring

definition width :: nat where
  "width = 1200"

definition tracklistHeight :: "EchoData \<Rightarrow> nat" where
  "tracklistHeight d = 150 + length (echoes d) * 80"

definition height :: "EchoData \<Rightarrow> nat" where
  "height d = width + tracklistHeight d"

text \<open>The statements before the image is awaited.\<close>

definition prepare_canvas :: "EchoData \<Rightarrow> canvas_op list" where
  "prepare_canvas d =
     [SetWidth width, SetHeight (height d),
      FillStyle (lit ''#0c0a09''), FillRect 0 0 width (height d)]"

text \<open>The \<open>forEach\<close> over the echoes, \<open>currentY\<close> threaded through.\<close>

fun tracklist :: "browser \<Rightarrow> EchoItem list \<Rightarrow> nat \<Rightarrow> canvas_op list" where
  "tracklist b [] currentY = []"
| "tracklist b (echo # rest) currentY =
     [FillStyle (lit ''#a8a29e''), Font (lit ''bold 32px Sans-Serif''),
      FillText (toUpperCase b (title echo)) 60 currentY,
      FillStyle (lit ''#57534e''), Font (lit ''24px Monospace''),
      FillText (creator echo @ lit '' / '' @ year echo) 60 (currentY + 35)]
     @ tracklist b rest (currentY + 80)"

text \<open>The statements after the image has loaded, up to the footer.\<close>

definition draw_card :: "browser \<Rightarrow> EchoData \<Rightarrow> canvas_op list" where
  "draw_card b d =
     (let contentStartY = width + 80 in
      [DrawImage 0 0 width width, TextAlign (lit ''left''),
       FillStyle (lit ''#e7e5e4''), Font (lit ''bold 60px Serif''),
       FillText (thematic_key d) 60 contentStartY]
      @ tracklist b (echoes d) (contentStartY + 80)
      @ [FillStyle (lit ''#44403c''), Font (lit ''20px Monospace''), TextAlign (lit ''center''),
         FillText (lit ''ECHOES ARCHIVE '' @ [0x2022] @ lit '' '' @ toLocaleDateString b)
           (width div 2) (height d - 40)])"

text \<open>The \<open>catch\<close> block: the raw image is offered instead.\<close>

definition fallback :: "jsstring \<Rightarrow> download" where
  "fallback href = Download href (lit ''echoes-artifact-image.jpg'')"

definition handleDownloadCard :: "browser \<Rightarrow> state \<Rightarrow> canvas_op list \<times> download option" where
  "handleDownloadCard b s =
     (case (synthesisImage s, data s) of
        (Some href, Some d) \<Rightarrow>
          if href = [] then ([], None)
          else if \<not> has_context b then ([CreateCanvas], None)
          else if \<not> image_loads b then (CreateCanvas # prepare_canvas d, Some (fallback href))
          else
            (CreateCanvas # prepare_canvas d @ draw_card b d,
             case toDataURL b of
               None \<Rightarrow> Some (fallback href)
             | Some dataUrl \<Rightarrow>
                 Some (Download dataUrl
                   (lit ''echoes-artifact-'' @ toLowerCase b (thematic_key d) @ lit ''.png'')))
      | _ \<Rightarrow> ([], None))"

text \<open>An operation that sets the canvas size.\<close>

fun resizes :: "canvas_op \<Rightarrow> bool" where
  "resizes (SetWidth w) = True"
| "resizes (SetHeight h) = True"
| "resizes op = False"

section \<open>Sample data\<close>

definition sample_item :: EchoItem where
  "sample_item = \<lparr>type = lit ''Poetry'', title = lit ''Dusk'', creator = lit ''Anon'',
     year = lit ''1900'', content = lit ''evening falls''\<rparr>"

definition sample_data :: EchoData where
  "sample_data = \<lparr>thematic_key = lit ''Entropy'', color_hex = lit ''#ffeecc'',
     echoes = [sample_item, sample_item], community_insight = lit ''shared'',
     search_query = lit ''dusk feeling''\<rparr>"

definition sample_url :: jsstring where
  "sample_url = lit ''https://image.pollinations.ai/prompt/x''"

definition sample_browser :: browser where
  "sample_browser = \<lparr>has_context = True, image_loads = True, toDataURL = Some (lit ''data:x''),
     toUpperCase = id, toLowerCase = id, toLocaleDateString = lit ''1/1/2026''\<rparr>"

text \<open>A retrieval service that always fails.\<close>

definition silent :: "jsstring \<Rightarrow> EchoData outcome" where
  "silent t = Rejected"

text \<open>
  A session that types a feeling, retrieves a result, synthesizes an artifact and goes
  back once (to the result screen) or twice (to the input screen).
\<close>

definition to_artifact :: "event list" where
  "to_artifact =
     [Change (lit ''dusk''), Submit, RetrievalFulfilled (lit ''dusk'') sample_data,
      Synthesize, ServiceFulfilled sample_data sample_url, ImageLoaded sample_url]"

definition back_at_result :: "system option" where
  "back_at_result = run (to_artifact @ [Back]) (mount None)"

definition back_at_input :: "system option" where
  "back_at_input = run (to_artifact @ [Back, Back]) (mount None)"

text \<open>The same sessions continued by a reshuffle, or a submit, whose retrieval fails.\<close>

definition failed_reshuffle :: "system option" where
  "failed_reshuffle =
     run (to_artifact @ [Back, Reshuffle, RetrievalRejected (lit ''dusk'')]) (mount None)"

definition failed_submit :: "system option" where
  "failed_submit =
     run (to_artifact @ [Back, Back, Submit, RetrievalRejected (lit ''dusk'')]) (mount None)"




text \<open>
  A retrieval is answered; then, before the saving effect of that commit has run, or
  after it has, the user resets; then the page is loaded again.
\<close>

definition answered :: "system option" where
  "answered =
     run [Change (lit ''dusk''), Submit, RetrievalFulfilled (lit ''dusk'') sample_data]
       (mount None)"

definition raced_reset :: "system option" where
  "raced_reset =
     run [Change (lit ''dusk''), Submit, RetrievalFulfilled (lit ''dusk'') sample_data, Reset]
       (mount None)"

definition raced_reset_reloaded :: "system option" where
  "raced_reset_reloaded =
     run [Change (lit ''dusk''), Submit, RetrievalFulfilled (lit ''dusk'') sample_data, Reset,
          Reload]
       (mount None)"

definition saved_then_reset :: "system option" where
  "saved_then_reset =
     run [Change (lit ''dusk''), Submit, RetrievalFulfilled (lit ''dusk'') sample_data,
          RunEffects, Reset]
       (mount None)"

text \<open>The snapshot of the state that retrieval's answer left.\<close>

definition answered_snapshot :: session where
  "answered_snapshot = \<lparr>s_data = Some sample_data, s_input = Some (lit ''dusk''),
     s_view = Some V_echo, s_synthesisImage = None\<rparr>"

text \<open>A stored session that names the artifact view but holds no image.\<close>

definition imageless :: session where
  "imageless = \<lparr>s_data = Some sample_data, s_input = Some (lit ''dusk''),
     s_view = Some V_artifact, s_synthesisImage = None\<rparr>"

text \<open>A restart into a stored result, and a component with two answers outstanding.\<close>

definition at_result :: system where
  "at_result = mount (Some (Parsed \<lparr>s_data = Some sample_data, s_input = Some (lit ''dusk''),
     s_view = Some V_echo, s_synthesisImage = None\<rparr>))"


text \<open>A blank input: a space, an ideographic space and a tab.\<close>

definition blank_input :: system where
  "blank_input = (mount None)\<lparr>ui := initial\<lparr>input := [0x0020, 0x3000, 0x0009]\<rparr>\<rparr>"

section \<open>The persistence invariant\<close>

text \<open>
  The slot holds the snapshot of the committed state when a result is held, and
  nothing otherwise.
\<close>

definition persisted :: "system \<Rightarrow> bool" where
  "persisted sys \<longleftrightarrow>
     slot sys = map_option (\<lambda>d. Parsed (snapshot (ui sys))) (data (ui sys))"

text \<open>A saving effect that would write a result is still pending.\<close>

definition unsaved_result :: "system \<Rightarrow> bool" where
  "unsaved_result sys = (case pending_save sys of None \<Rightarrow> False | Some c \<Rightarrow> data c \<noteq> None)"

text \<open>
  A sequence of events in which no reset lands while a saving effect that would write
  a result is pending.
\<close>

fun calm :: "event list \<Rightarrow> system \<Rightarrow> bool" where
  "calm [] sys = True"
| "calm (e # es) sys =
     ((e \<noteq> Reset \<or> \<not> unsaved_result sys) \<and>
      (case fire e sys of None \<Rightarrow> True | Some sys' \<Rightarrow> calm es sys'))"

text \<open>The slot is empty or holds a session with a result.\<close>

definition wf_slot :: "stored option \<Rightarrow> bool" where
  "wf_slot st =
     (case st of None \<Rightarrow> True | Some Malformed \<Rightarrow> False | Some (Parsed p) \<Rightarrow> s_data p \<noteq> None)"

text \<open>
  What holds between commits: with no saving effect pending the slot is up to date;
  a pending effect closes over the current state, and when it will write nothing the
  slot is empty already.
\<close>

definition consistent :: "system \<Rightarrow> bool" where
  "consistent sys \<longleftrightarrow>
     wf_slot (slot sys) \<and>
     (pending_save sys = None \<and> persisted sys \<or>
      pending_save sys = Some (ui sys) \<and> (data (ui sys) \<noteq> None \<or> slot sys = None))"

section \<open>Auxiliary facts\<close>

lemma trim_empty_iff: "trim s = [] \<longleftrightarrow> list_all isWhiteSpace s"
proof
  assume "trim s = []"
  then have all: "\<forall>c \<in> set (dropWhile isWhiteSpace s). isWhiteSpace c"
    by (simp add: trim_def)
  have "dropWhile isWhiteSpace s = []"
  proof (rule ccontr)
    assume ne: "dropWhile isWhiteSpace s \<noteq> []"
    then have "\<not> isWhiteSpace (hd (dropWhile isWhiteSpace s))"
      by (rule hd_dropWhile)
    moreover have "hd (dropWhile isWhiteSpace s) \<in> set (dropWhile isWhiteSpace s)"
      using ne by (rule hd_in_set)
    ultimately show False using all by blast
  qed
  then show "list_all isWhiteSpace s"
    by (simp add: list_all_iff)
next
  assume "list_all isWhiteSpace s"
  then show "trim s = []"
    by (auto simp: trim_def list_all_iff dest: set_dropWhileD)
qed

lemma ui_flush [simp]: "ui (flush sys) = ui sys"
  by (simp add: flush_def split: option.splits)

lemma inflight_flush [simp]: "inflight (flush sys) = inflight sys"
  by (simp add: flush_def split: option.splits)

lemma pending_save_flush [simp]: "pending_save (flush sys) = None"
  by (simp add: flush_def split: option.splits)

lemma ui_render [simp]: "ui (render discrete fresh f sys) = f (ui sys)"
  by (simp add: render_def)

lemma inflight_render [simp]: "inflight (render discrete fresh f sys) = inflight sys"
  by (simp add: render_def)

lemma ui_update [simp]: "ui (update f sys) = f (ui sys)"
  by (simp add: update_def)

lemma inflight_update [simp]: "inflight (update f sys) = inflight sys"
  by (simp add: update_def)

lemma update_same: "update (\<lambda>_. ui sys) sys = sys"
  by (simp add: update_def render_def)

text \<open>The four cases of a batch of updates.\<close>

lemma render_skip:
  "\<not> fresh \<Longrightarrow> f (ui sys) = ui sys \<Longrightarrow> render discrete fresh f sys = sys"
  by (simp add: render_def)

lemma render_nodue:
  "fresh \<or> f (ui sys) \<noteq> ui sys \<Longrightarrow> \<not> effect_due fresh (ui sys) (f (ui sys)) \<Longrightarrow>
   render discrete fresh f sys = (flush sys)\<lparr>ui := f (ui sys)\<rparr>"
  by (auto simp: render_def)

lemma render_now:
  "fresh \<or> f (ui sys) \<noteq> ui sys \<Longrightarrow> effect_due fresh (ui sys) (f (ui sys)) \<Longrightarrow>
   render True fresh f sys =
     (flush sys)\<lparr>ui := f (ui sys), slot := saveSession (f (ui sys)) (slot (flush sys))\<rparr>"
  by (auto simp: render_def)

lemma render_later:
  "fresh \<or> f (ui sys) \<noteq> ui sys \<Longrightarrow> effect_due fresh (ui sys) (f (ui sys)) \<Longrightarrow>
   render False fresh f sys = (flush sys)\<lparr>ui := f (ui sys), pending_save := Some (f (ui sys))\<rparr>"
  by (auto simp: render_def)

lemma handleReset_fixed:
  assumes "handleReset s = s"
  shows "data s = None"
proof -
  have "data (handleReset s) = None"
    by (simp add: handleReset_def)
  with assms show ?thesis
    by simp
qed

text \<open>
  Reset with no saving effect pending that would write a result: the slot ends empty,
  and no saving effect is added.
\<close>

lemma slot_flush_removed:
  assumes "\<not> unsaved_result sys"
  shows "slot (flush (sys\<lparr>slot := None\<rparr>)) = None"
  using assms
  by (cases "pending_save sys") (simp_all add: flush_def saveSession_def unsaved_result_def)

lemma reset_result:
  assumes "\<not> unsaved_result sys"
  shows "slot (update handleReset (sys\<lparr>slot := None\<rparr>)) = None \<and>
    (pending_save (update handleReset (sys\<lparr>slot := None\<rparr>)) = None \<or>
     handleReset (ui sys) = ui sys \<and>
     pending_save (update handleReset (sys\<lparr>slot := None\<rparr>)) = pending_save sys)"
proof (cases "handleReset (ui sys) = ui sys")
  case True
  then have "update handleReset (sys\<lparr>slot := None\<rparr>) = sys\<lparr>slot := None\<rparr>"
    by (simp add: update_def render_skip)
  with True show ?thesis
    by simp
next
  case False
  then have c: "False \<or> handleReset (ui (sys\<lparr>slot := None\<rparr>)) \<noteq> ui (sys\<lparr>slot := None\<rparr>)"
    by simp
  have n: "saveSession (handleReset (ui sys)) None = None"
    by (simp add: saveSession_def handleReset_def)
  show ?thesis
  proof (cases "effect_due False (ui sys) (handleReset (ui sys))")
    case True
    with render_now [where fresh = False and f = handleReset and sys = "sys\<lparr>slot := None\<rparr>"]
      c n slot_flush_removed [OF assms]
    show ?thesis
      by (simp add: update_def)
  next
    case False
    with render_nodue [where fresh = False and f = handleReset and sys = "sys\<lparr>slot := None\<rparr>"
        and discrete = True]
      c slot_flush_removed [OF assms]
    show ?thesis
      by (simp add: update_def)
  qed
qed

lemma findEcho_begin_issues:
  assumes "\<not> list_all isWhiteSpace (input s)"
  shows "findEcho_begin None s =
    (s\<lparr>loading := True, error := [], synthesisImage := None\<rparr>, Some (input s))"
proof -
  have "input s \<noteq> []" using assms by auto
  moreover have "trim (input s) \<noteq> []" using assms by (simp add: trim_empty_iff)
  ultimately show ?thesis by (simp add: findEcho_begin_def searchTerm_def)
qed

lemma ui_mount: "ui (mount savedSession) = restoreSession savedSession initial"
  by (simp add: mount_def Let_def)

lemma slot_mount: "slot (mount savedSession) = savedSession"
  by (simp add: mount_def Let_def)

lemma inflight_mount: "inflight (mount savedSession) = []"
  by (simp add: mount_def Let_def)

lemma pending_save_mount:
  "pending_save (mount savedSession) =
     (if effect_due False initial (restoreSession savedSession initial)
      then Some (restoreSession savedSession initial) else None)"
  by (simp add: mount_def Let_def)

lemma tracklist_no_resize: "list_all (\<lambda>op. \<not> resizes op) (tracklist b es y)"
  by (induction es arbitrary: y) simp_all

section \<open>Blank input\<close>

text \<open>
  Claim C9. When the input consists of white space only (the empty input included),
  submitting it changes nothing: \<open>findEcho\<close> returns at its guard without a request,
  whatever the service would have answered, and the whole component (state, storage
  slot, requests in flight) is as before.
\<close>

theorem blank_submit_is_noop:
  assumes "list_all isWhiteSpace (input (ui sys))" and "rendered (ui sys) = InputScreen"
  shows "findEcho_begin None (ui sys) = (ui sys, None) \<and>
    findEcho service None (ui sys) = ui sys \<and>
    fire Submit sys = Some sys"
  using assms
  by (simp add: findEcho_def call_findEcho_def findEcho_begin_def searchTerm_def
      trim_empty_iff update_same)

theorem blank_submit_is_noop_witness:
  "list_all isWhiteSpace (input (ui blank_input)) \<and> fire Submit blank_input = Some blank_input"
  using blank_submit_is_noop [of blank_input silent]
  by (simp add: blank_input_def isWhiteSpace_def rendered_def initial_def)

section \<open>Failed retrieval\<close>

text \<open>
  Claim C1, as the code has it. A submit from the input view, of an input that is not
  blank, whose retrieval is rejected: the view is still the input view, the error text
  is the generic message, the held result and the input text are as before, the
  loading flag is off, and the artifact image is cleared, whatever it was. Nothing
  else changes.
\<close>

theorem failed_submit_effect:
  assumes "view s = V_input" and "\<not> list_all isWhiteSpace (input s)"
    and "service (input s) = Rejected"
  shows "findEcho service None s =
      s\<lparr>loading := False, error := lit ''The archive is silent. Please try again.'',
        synthesisImage := None\<rparr> \<and>
    view (findEcho service None s) = V_input \<and>
    data (findEcho service None s) = data s \<and>
    input (findEcho service None s) = input s"
  using assms by (simp add: findEcho_def findEcho_begin_issues findEcho_rejected_def)

theorem failed_submit_effect_witness:
  "findEcho silent None (initial\<lparr>input := lit ''dusk'', synthesisImage := Some sample_url\<rparr>) =
     initial\<lparr>input := lit ''dusk'', synthesisImage := None,
       error := lit ''The archive is silent. Please try again.''\<rparr>"
  using failed_submit_effect [of "initial\<lparr>input := lit ''dusk'',
    synthesisImage := Some sample_url\<rparr>" silent]
  by (simp add: initial_def silent_def lit_def isWhiteSpace_def)

text \<open>
  The claim as stated fails: after an artifact was made and the user went back to the
  input screen, a failed submit leaves no artifact image where there was one.
\<close>

theorem failed_submit_clears_image:
  "map_option (view \<circ> ui) back_at_input = Some V_input \<and>
   map_option (synthesisImage \<circ> ui) back_at_input = Some (Some sample_url) \<and>
   map_option (view \<circ> ui) failed_submit = Some V_input \<and>
   map_option (synthesisImage \<circ> ui) failed_submit = Some None"
  by code_simp

text \<open>
  Claim C4, as the code has it. A reshuffle from the result view, of an input that is
  not blank, whose retrieval is rejected: the view is still the result view, the held
  result and the input text are as before, the error text is the generic message, the
  loading flag is off, and the artifact image is cleared, whatever it was. Nothing
  else changes.
\<close>

theorem failed_reshuffle_effect:
  assumes "view s = V_echo" and "data s = Some d"
    and "\<not> list_all isWhiteSpace (input s)" and "service (input s) = Rejected"
  shows "findEcho service None s =
      s\<lparr>loading := False, error := lit ''The archive is silent. Please try again.'',
        synthesisImage := None\<rparr> \<and>
    rendered (findEcho service None s) = ResultScreen \<and>
    data (findEcho service None s) = Some d \<and>
    input (findEcho service None s) = input s"
  using assms
  by (simp add: findEcho_def findEcho_begin_issues findEcho_rejected_def rendered_def)

theorem failed_reshuffle_effect_witness:
  "findEcho silent None (initial\<lparr>input := lit ''dusk'', data := Some sample_data,
       view := V_echo, synthesisImage := Some sample_url\<rparr>) =
     initial\<lparr>input := lit ''dusk'', data := Some sample_data, view := V_echo,
       synthesisImage := None, error := lit ''The archive is silent. Please try again.''\<rparr>"
  using failed_reshuffle_effect [of "initial\<lparr>input := lit ''dusk'', data := Some sample_data,
    view := V_echo, synthesisImage := Some sample_url\<rparr>" sample_data silent]
  by (simp add: initial_def silent_def lit_def isWhiteSpace_def)

text \<open>
  The claim as stated fails: after an artifact was made and the user went back to the
  result screen, a failed reshuffle leaves no artifact image where there was one.
\<close>

theorem failed_reshuffle_clears_image:
  "map_option (rendered \<circ> ui) back_at_result = Some ResultScreen \<and>
   map_option (synthesisImage \<circ> ui) back_at_result = Some (Some sample_url) \<and>
   map_option (rendered \<circ> ui) failed_reshuffle = Some ResultScreen \<and>
   map_option (synthesisImage \<circ> ui) failed_reshuffle = Some None"
  by code_simp

section \<open>Answers that arrive late\<close>




section \<open>Restoring a session\<close>

text \<open>
  Claim C3, as the code has it. A stored session that holds a result, names the
  artifact view and has no artifact image (absent or empty) is restored with the view
  at artifact and no image held. No screen is drawn for that state (only the header
  with its back arrow and logo); one back action shows the result screen.
\<close>

theorem restore_without_image:
  assumes "s_data p = Some d" and "s_view p = Some V_artifact"
    and "\<not> truthy (s_synthesisImage p)"
  shows "view (ui (mount (Some (Parsed p)))) = V_artifact \<and>
    synthesisImage (ui (mount (Some (Parsed p)))) = None \<and>
    data (ui (mount (Some (Parsed p)))) = Some d \<and>
    rendered (ui (mount (Some (Parsed p)))) = Blank \<and>
    map_option (rendered \<circ> ui) (fire Back (mount (Some (Parsed p)))) = Some ResultScreen"
  using assms
  by (simp add: ui_mount restoreSession_def initial_def rendered_def truthy_def handleBack_def)

theorem restore_without_image_witness:
  "s_view imageless = Some V_artifact \<and> \<not> truthy (s_synthesisImage imageless) \<and>
   rendered (ui (mount (Some (Parsed imageless)))) = Blank \<and>
   map_option (rendered \<circ> ui) (fire Back (mount (Some (Parsed imageless)))) = Some ResultScreen"
proof -
  have h: "s_data imageless = Some sample_data" "s_view imageless = Some V_artifact"
    "\<not> truthy (s_synthesisImage imageless)"
    by (simp_all add: imageless_def truthy_def)
  from restore_without_image [OF h] h show ?thesis
    by blast
qed

text \<open>
  The claim as stated fails: restoring such a session does not put the component in
  the result state.
\<close>

theorem restore_imageless_stays_artifact:
  "s_view imageless = Some V_artifact \<and> s_synthesisImage imageless = None \<and>
   view (ui (mount (Some (Parsed imageless)))) = V_artifact \<and>
   view (ui (mount (Some (Parsed imageless)))) \<noteq> V_echo \<and>
   rendered (ui (mount (Some (Parsed imageless)))) \<noteq> ResultScreen"
  by code_simp

section \<open>Reset\<close>

text \<open>
  When no saving effect that would write a result is pending, reset leaves no result,
  an empty input, no artifact image, the input view and an empty slot, and a startup
  from that slot restores nothing.
\<close>

lemma reset_clears_when_saved:
  assumes "\<not> unsaved_result sys"
  shows "\<exists>sys'. fire Reset sys = Some sys' \<and>
     data (ui sys') = None \<and> input (ui sys') = [] \<and> synthesisImage (ui sys') = None \<and>
     view (ui sys') = V_input \<and> slot sys' = None \<and>
     ui (mount (slot sys')) = initial \<and> slot (mount (slot sys')) = None"
  using reset_result [OF assms]
  by (simp add: handleReset_def ui_mount slot_mount restoreSession_def)

text \<open>
  Claim C5 fails on the code. A retrieval is answered and its result committed; the
  saving effect of that commit is still pending when the user resets. The handler
  removes the stored item, then the pending effect runs and writes the snapshot of
  the state before the reset. The component is reset (input view, no result), but
  the slot holds that snapshot, and the next startup restores the result and shows
  the result screen. When the effect has run before the reset, the slot ends empty.
\<close>

theorem reset_races_pending_save:
  "map_option (data \<circ> ui) answered = Some (Some sample_data) \<and>
   map_option pending_save answered = map_option (Some \<circ> ui) answered \<and>
   map_option (view \<circ> ui) raced_reset = Some V_input \<and>
   map_option (data \<circ> ui) raced_reset = Some None \<and>
   map_option slot raced_reset = Some (Some (Parsed answered_snapshot)) \<and>
   map_option (data \<circ> ui) raced_reset_reloaded = Some (Some sample_data) \<and>
   map_option (rendered \<circ> ui) raced_reset_reloaded = Some ResultScreen \<and>
   map_option slot saved_then_reset = Some None"
  by code_simp

text \<open>
  Claim C10. Reset does not touch the error text: it is after the reset what it was
  before, and when it is not empty the input screen that reset leads to shows it.
\<close>

theorem reset_keeps_error:
  "error (handleReset s) = error s \<and>
   (\<exists>sys'. fire Reset sys = Some sys' \<and> error (ui sys') = error (ui sys) \<and>
      rendered (ui sys') = InputScreen \<and>
      shown_error (ui sys') = (if error (ui sys) = [] then None else Some (error (ui sys))))"
  by (simp add: handleReset_def shown_error_def rendered_def)

theorem reset_keeps_error_witness:
  "map_option (shown_error \<circ> ui)
     (fire Reset (at_result\<lparr>ui := findEcho_rejected (ui at_result)\<rparr>)) =
   Some (Some (lit ''The archive is silent. Please try again.''))"
proof -
  have "error (ui (at_result\<lparr>ui := findEcho_rejected (ui at_result)\<rparr>)) =
      lit ''The archive is silent. Please try again.''"
    by (simp add: findEcho_rejected_def)
  moreover have "lit ''The archive is silent. Please try again.'' \<noteq> []"
    by (simp add: lit_def)
  ultimately show ?thesis
    using reset_keeps_error [of "ui at_result" "at_result\<lparr>ui := findEcho_rejected (ui at_result)\<rparr>"]
    by auto
qed

section \<open>Synthesis\<close>

text \<open>
  Claim C7. From the result screen, the synthesize action shows the synthesizing view
  at once, before the service has answered. When the service returns a URL the view
  stays synthesizing until the image has loaded and only then becomes artifact; when
  the image fails to load, or the service call fails, the view becomes the result
  view (never the input view).
\<close>

theorem synthesis_passes_through_synthesizing:
  assumes "rendered (ui sys) = ResultScreen" and "data (ui sys) = Some d"
  shows "views [Synthesize] sys = Some [V_synthesizing] \<and>
    map_option inflight (fire Synthesize sys) = Some (inflight sys @ [Service d]) \<and>
    views [Synthesize, ServiceFulfilled d imageUrl, ImageLoaded imageUrl] sys =
      Some [V_synthesizing, V_synthesizing, V_artifact] \<and>
    views [Synthesize, ServiceFulfilled d imageUrl, ImageFailed imageUrl] sys =
      Some [V_synthesizing, V_synthesizing, V_echo] \<and>
    views [Synthesize, ServiceRejected d] sys = Some [V_synthesizing, V_echo]"
  using assms
  by (simp add: views_def call_generateArtifact_def generateArtifact_begin_def arrive_def
      artifact_onload_def artifact_onerror_def artifact_catch_def)

theorem synthesis_passes_through_synthesizing_witness:
  "rendered (ui at_result) = ResultScreen \<and>
   views [Synthesize, ServiceFulfilled sample_data sample_url, ImageLoaded sample_url] at_result =
     Some [V_synthesizing, V_synthesizing, V_artifact] \<and>
   views [Synthesize, ServiceFulfilled sample_data sample_url, ImageFailed sample_url] at_result =
     Some [V_synthesizing, V_synthesizing, V_echo] \<and>
   views [Synthesize, ServiceRejected sample_data] at_result = Some [V_synthesizing, V_echo]"
proof -
  have h: "rendered (ui at_result) = ResultScreen" "data (ui at_result) = Some sample_data"
    by code_simp+
  from synthesis_passes_through_synthesizing [OF h, of sample_url] h show ?thesis
    by blast
qed

section \<open>Card compositor\<close>

text \<open>
  Claim C8. Whenever the compositor gets as far as sizing its canvas (a result and an
  artifact image are held, and a 2D context is available), it sets the canvas height
  to \<open>width + 150 + 80 * N\<close> for a result of \<open>N\<close> echoes, with \<open>width\<close> the
  constant 1200. The size is set once, right after the canvas element is created and
  before anything is painted; nothing later resizes the canvas.
\<close>

theorem canvas_height:
  assumes "data s = Some d" and "truthy (synthesisImage s)" and "has_context b"
  shows "width = 1200 \<and>
    (\<exists>rest. fst (handleDownloadCard b s) =
        CreateCanvas # SetWidth width # SetHeight (width + 150 + 80 * length (echoes d)) # rest \<and>
      list_all (\<lambda>op. \<not> resizes op) rest)"
  using assms
  by (auto simp: handleDownloadCard_def truthy_def prepare_canvas_def draw_card_def width_def
      height_def tracklistHeight_def tracklist_no_resize split: option.splits)

theorem canvas_height_witness:
  "length (echoes sample_data) = 2 \<and>
   (\<exists>rest. fst (handleDownloadCard sample_browser
        (initial\<lparr>data := Some sample_data, synthesisImage := Some sample_url\<rparr>)) =
      CreateCanvas # SetWidth 1200 # SetHeight 1510 # rest)"
proof -
  have h: "data (initial\<lparr>data := Some sample_data, synthesisImage := Some sample_url\<rparr>) =
      Some sample_data"
    "truthy (synthesisImage (initial\<lparr>data := Some sample_data, synthesisImage := Some sample_url\<rparr>))"
    "has_context sample_browser"
    by (simp_all add: truthy_def sample_url_def lit_def sample_browser_def)
  have n: "length (echoes sample_data) = 2"
    by (simp add: sample_data_def)
  from canvas_height [OF h] n show ?thesis
    by auto
qed

section \<open>The slot follows the result\<close>

lemma consistent_inflight [simp]: "consistent (sys\<lparr>inflight := ps\<rparr>) = consistent sys"
  by (simp add: consistent_def persisted_def)

lemma persisted_wf: "persisted sys \<Longrightarrow> wf_slot (slot sys)"
  by (cases "data (ui sys)") (simp_all add: persisted_def wf_slot_def snapshot_def)

text \<open>Once the pending effect has run, the slot is up to date.\<close>

lemma persisted_flush:
  assumes "consistent sys"
  shows "persisted (flush sys)"
proof (cases "pending_save sys")
  case None
  with assms show ?thesis
    by (simp add: consistent_def flush_def)
next
  case (Some c)
  with assms have c: "c = ui sys" and d: "data (ui sys) \<noteq> None \<or> slot sys = None"
    by (simp_all add: consistent_def)
  from Some c d show ?thesis
    by (auto simp: flush_def persisted_def saveSession_def)
qed

text \<open>
  A batch of updates keeps the invariant, unless it drops the result (only reset
  does, and reset empties the slot itself).
\<close>

lemma consistent_render:
  assumes "consistent sys" and "data (f (ui sys)) = None \<Longrightarrow> data (ui sys) = None"
  shows "consistent (render discrete fresh f sys)"
proof (cases "\<not> fresh \<and> f (ui sys) = ui sys")
  case True
  with assms(1) show ?thesis
    by (simp add: render_skip)
next
  case False
  then have c: "fresh \<or> f (ui sys) \<noteq> ui sys"
    by blast
  have p: "slot (flush sys) = map_option (\<lambda>d. Parsed (snapshot (ui sys))) (data (ui sys))"
    using persisted_flush [OF assms(1)] by (simp add: persisted_def)
  have w: "wf_slot (slot (flush sys))"
    using persisted_flush [OF assms(1)] by (rule persisted_wf)
  show ?thesis
  proof (cases "effect_due fresh (ui sys) (f (ui sys))")
    case nodue: False
    then have "snapshot (f (ui sys)) = snapshot (ui sys)" and "data (f (ui sys)) = data (ui sys)"
      by (simp_all add: effect_due_def deps_def snapshot_def)
    with p w show ?thesis
      by (simp add: render_nodue [where fresh = fresh and f = f and sys = sys, OF c nodue] consistent_def persisted_def)
  next
    case due: True
    show ?thesis
    proof (cases "data (f (ui sys))")
      case None
      with assms(2) p have e: "slot (flush sys) = None"
        by simp
      show ?thesis
      proof (cases discrete)
        case True
        with None e show ?thesis
          by (simp add: render_now [where fresh = fresh and f = f and sys = sys, OF c due] consistent_def persisted_def saveSession_def
              wf_slot_def)
      next
        case False
        with None e show ?thesis
          by (simp add: render_later [where fresh = fresh and f = f and sys = sys, OF c due] consistent_def wf_slot_def)
      qed
    next
      case (Some d)
      show ?thesis
      proof (cases discrete)
        case True
        with Some show ?thesis
          by (simp add: render_now [where fresh = fresh and f = f and sys = sys, OF c due] consistent_def persisted_def saveSession_def
              wf_slot_def snapshot_def)
      next
        case False
        with Some w show ?thesis
          by (simp add: render_later [where fresh = fresh and f = f and sys = sys, OF c due] consistent_def)
      qed
    qed
  qed
qed

lemma consistent_reset:
  assumes "consistent sys" and "\<not> unsaved_result sys"
  shows "consistent (update handleReset (sys\<lparr>slot := None\<rparr>))"
proof -
  let ?r = "update handleReset (sys\<lparr>slot := None\<rparr>)"
  have s: "slot ?r = None"
    using reset_result [OF assms(2)] by simp
  have d: "data (ui ?r) = None"
    by (simp add: handleReset_def)
  from assms(1) have c: "pending_save sys = None \<or> pending_save sys = Some (ui sys)"
    by (auto simp: consistent_def)
  from reset_result [OF assms(2)]
  have "pending_save ?r = None \<or>
    handleReset (ui sys) = ui sys \<and> pending_save ?r = pending_save sys"
    by (rule conjunct2)
  with c have "pending_save ?r = None \<or> pending_save ?r = Some (ui ?r)"
    by auto
  with s d show ?thesis
    by (auto simp: consistent_def persisted_def wf_slot_def)
qed

lemma consistent_mount:
  assumes "wf_slot st"
  shows "consistent (mount st)"
proof (cases st)
  case None
  then show ?thesis
    by (simp add: ui_mount slot_mount pending_save_mount restoreSession_def effect_due_def
        consistent_def persisted_def initial_def wf_slot_def)
next
  case (Some x)
  show ?thesis
  proof (cases x)
    case Malformed
    with Some assms show ?thesis
      by (simp add: wf_slot_def)
  next
    case (Parsed p)
    with Some assms obtain d where "s_data p = Some d"
      by (auto simp: wf_slot_def)
    with Some Parsed show ?thesis
      by (simp add: ui_mount slot_mount pending_save_mount restoreSession_def effect_due_def
          deps_def consistent_def initial_def wf_slot_def)
  qed
qed

lemma consistent_call_findEcho: "consistent sys \<Longrightarrow> consistent (call_findEcho sys)"
  by (auto simp: call_findEcho_def findEcho_begin_def update_def Let_def
      intro!: consistent_render)

lemma consistent_call_generateArtifact:
  "consistent sys \<Longrightarrow> consistent (call_generateArtifact sys)"
  by (auto simp: call_generateArtifact_def generateArtifact_begin_def update_def
      intro!: consistent_render split: option.splits)

lemma consistent_arrive:
  assumes "consistent sys" and "arrive p fresh f sys = Some sys'"
    and "data (f (ui sys)) = None \<Longrightarrow> data (ui sys) = None"
  shows "consistent sys'"
  using assms by (auto simp: arrive_def intro!: consistent_render split: if_splits)

lemma consistent_fire:
  assumes "consistent sys" and "e \<noteq> Reset \<or> \<not> unsaved_result sys" and "fire e sys = Some sys'"
  shows "consistent sys'"
proof (cases e)
  case (Change t)
  with assms show ?thesis
    by (auto simp: update_def split: if_splits intro!: consistent_render)
next
  case Submit
  with assms show ?thesis by (auto split: if_splits intro: consistent_call_findEcho)
next
  case Reshuffle
  with assms show ?thesis by (auto split: if_splits intro: consistent_call_findEcho)
next
  case Synthesize
  with assms show ?thesis by (auto split: if_splits intro: consistent_call_generateArtifact)
next
  case Reset
  with assms show ?thesis by (auto intro: consistent_reset)
next
  case Back
  with assms show ?thesis
    by (auto simp: update_def handleBack_def split: if_splits intro!: consistent_render)
next
  case Tick
  with assms show ?thesis by (auto split: if_splits intro!: consistent_render)
next
  case (RetrievalFulfilled t r)
  with assms show ?thesis by (auto simp: findEcho_fulfilled_def elim!: consistent_arrive)
next
  case (RetrievalRejected t)
  with assms show ?thesis by (auto simp: findEcho_rejected_def elim!: consistent_arrive)
next
  case (ServiceFulfilled d u)
  with assms show ?thesis by (auto split: if_splits)
next
  case (ServiceRejected d)
  with assms show ?thesis by (auto simp: artifact_catch_def elim!: consistent_arrive)
next
  case (ImageLoaded u)
  with assms show ?thesis by (auto simp: artifact_onload_def elim!: consistent_arrive)
next
  case (ImageFailed u)
  with assms show ?thesis by (auto simp: artifact_onerror_def elim!: consistent_arrive)
next
  case RunEffects
  with assms have "sys' = flush sys"
    by simp
  with persisted_flush [OF assms(1)] persisted_wf [OF persisted_flush [OF assms(1)]]
  show ?thesis
    by (simp add: consistent_def)
next
  case Reload
  with assms have "sys' = mount (slot sys)" and "wf_slot (slot sys)"
    by (simp_all add: consistent_def)
  then show ?thesis
    by (simp add: consistent_mount)
qed

lemma consistent_run:
  "consistent sys \<Longrightarrow> calm es sys \<Longrightarrow> run es sys = Some sys' \<Longrightarrow> consistent sys'"
proof (induction es arbitrary: sys)
  case Nil
  then show ?case by simp
next
  case (Cons e es)
  from Cons.prems(3) obtain sys1 where f: "fire e sys = Some sys1" and r: "run es sys1 = Some sys'"
    by (auto split: option.splits)
  from Cons.prems(2) f have g: "e \<noteq> Reset \<or> \<not> unsaved_result sys" and c: "calm es sys1"
    by simp_all
  from Cons.prems(1) g f have "consistent sys1"
    by (rule consistent_fire)
  from this c r show ?case
    by (rule Cons.IH)
qed

lemma consistent_fresh: "consistent (mount None)"
  by (rule consistent_mount) (simp add: wf_slot_def)

text \<open>
  Claim C6, as the code has it. Start from an empty slot and let anything happen (user
  actions, answers arriving in any order, saving effects running late, page reloads),
  as long as no reset lands while a saving effect that would write a result is still
  pending. Then at every point, once the saving effect of the last commit has run, the
  slot holds a snapshot exactly when a result is held; with a result held it is the
  snapshot of the current state, and without one the slot is empty (no empty snapshot
  is kept). With no saving effect pending this is the slot as it stands.
\<close>

theorem snapshot_iff_result:
  assumes "run es (mount None) = Some sys" and "calm es (mount None)"
  shows "(slot (flush sys) \<noteq> None \<longleftrightarrow> data (ui sys) \<noteq> None) \<and>
    (data (ui sys) \<noteq> None \<longrightarrow> slot (flush sys) = Some (Parsed (snapshot (ui sys)))) \<and>
    (data (ui sys) = None \<longrightarrow> slot (flush sys) = None) \<and>
    (pending_save sys = None \<longrightarrow> slot (flush sys) = slot sys)"
proof -
  have "consistent sys"
    using consistent_fresh assms(2) assms(1) by (rule consistent_run)
  then have "persisted (flush sys)"
    by (rule persisted_flush)
  then have "slot (flush sys) = map_option (\<lambda>d. Parsed (snapshot (ui sys))) (data (ui sys))"
    by (simp add: persisted_def)
  moreover have "pending_save sys = None \<longrightarrow> slot (flush sys) = slot sys"
    by (simp add: flush_def)
  ultimately show ?thesis
    by auto
qed

theorem snapshot_iff_result_witness:
  "\<exists>sys. run (to_artifact @ [RunEffects]) (mount None) = Some sys \<and>
     calm (to_artifact @ [RunEffects]) (mount None) \<and>
     data (ui sys) = Some sample_data \<and> slot sys = Some (Parsed (snapshot (ui sys)))"
proof -
  have c: "calm (to_artifact @ [RunEffects]) (mount None)"
    by code_simp
  have "map_option pending_save (run (to_artifact @ [RunEffects]) (mount None)) = Some None"
    by code_simp
  then obtain sys where r: "run (to_artifact @ [RunEffects]) (mount None) = Some sys"
    and n: "pending_save sys = None"
    by auto
  have "map_option (data \<circ> ui) (run (to_artifact @ [RunEffects]) (mount None)) =
      Some (Some sample_data)"
    by code_simp
  with r have d: "data (ui sys) = Some sample_data"
    by simp
  from snapshot_iff_result [OF r c] d n have "slot sys = Some (Parsed (snapshot (ui sys)))"
    by auto
  with r c d show ?thesis
    by blast
qed

text \<open>
  The claim as stated fails at two points. After an answer has been committed and
  before the saving effect of that commit has run, a result is held and the slot is
  empty. After a reset that lands in that interval, no result is held and the slot
  holds the snapshot of the state before the reset.
\<close>

theorem slot_lags_and_survives:
  "map_option (data \<circ> ui) answered = Some (Some sample_data) \<and>
   map_option slot answered = Some None \<and>
   map_option (data \<circ> ui) raced_reset = Some None \<and>
   map_option pending_save raced_reset = Some None \<and>
   map_option slot raced_reset \<noteq> Some None"
  by code_simp

end
